theory Spec2Isabelle
  imports Main "HOL-Library.Sublist" "HOL-Library.Word"
begin

section \<open>The plugin editor template (templates/src/PluginEditor.cpp)\<close>

text \<open>
  The editor is a JUCE component that hosts a WebView. Its source file defines the
  constructor, \<open>setupWebView\<close> with the resource provider lambda,
  \<open>setupRelaysAndAttachments\<close>, the timer callback with \<open>sendVisualizerData\<close>,
  \<open>paint\<close> and \<open>resized\<close>. Everything prefixed \<open>juce::\<close> is the JUCE library:
  its file functions are taken as parameters (record \<open>file_api\<close>), so that what is proved
  of the resource provider holds for whatever the library does.
\<close>

subsection \<open>juce::String operations used by the source\<close>

type_synonym byte = "8 word"

definition startsWith :: "string \<Rightarrow> string \<Rightarrow> bool" where
  "startsWith s t = (take (length t) s = t)"

definition endsWith :: "string \<Rightarrow> string \<Rightarrow> bool" where
  "endsWith s t = (length t \<le> length s \<and> drop (length s - length t) s = t)"

definition substring :: "string \<Rightarrow> nat \<Rightarrow> string" where
  "substring s start = drop start s"

definition isEmpty :: "string \<Rightarrow> bool" where
  "isEmpty s = (s = [])"

subsection \<open>The resource provider lambda (lines 75 to 108)\<close>

text \<open>
  \<open>juce::File\<close> is opaque to the source: \<open>'f\<close> is the type of file locations, and the
  member functions the source calls are fields. \<open>loadFileAsData\<close> returns the success
  flag together with the bytes it left in the \<open>MemoryBlock\<close>; \<open>fileContents\<close> is what is
  stored at a location, which the source never reads directly and which only statements
  about the read refer to. \<open>currentExecutableFile\<close> is
  \<open>File::getSpecialLocation (File::currentExecutableFile)\<close> and \<open>defaultFile\<close> is a
  default-constructed \<open>juce::File\<close>.
\<close>

record 'f file_api =
  getChildFile :: "'f \<Rightarrow> string \<Rightarrow> 'f"
  getParentDirectory :: "'f \<Rightarrow> 'f"
  existsAsFile :: "'f \<Rightarrow> bool"
  loadFileAsData :: "'f \<Rightarrow> bool \<times> byte list"
  fileContents :: "'f \<Rightarrow> byte list"
  currentExecutableFile :: "'f"
  defaultFile :: "'f"

record resource =
  data :: "byte list"
  mimeType :: string

text \<open>Lines 77 to 81: one leading slash is dropped, an empty path becomes the root document.\<close>

definition normalisePath :: "string \<Rightarrow> string" where
  "normalisePath url =
     (let path = (if startsWith url ''/'' then substring url 1 else url)
      in if isEmpty path then ''index.html'' else path)"

text \<open>Lines 88 to 97: the chain of suffix tests, in the source's order.\<close>

definition mimeTypeFor :: "string \<Rightarrow> string" where
  "mimeTypeFor path =
     (if endsWith path ''.html'' then ''text/html''
      else if endsWith path ''.css'' then ''text/css''
      else if endsWith path ''.js'' then ''application/javascript''
      else if endsWith path ''.json'' then ''application/json''
      else if endsWith path ''.png'' then ''image/png''
      else if endsWith path ''.jpg'' \<or> endsWith path ''.jpeg'' then ''image/jpeg''
      else if endsWith path ''.svg'' then ''image/svg+xml''
      else if endsWith path ''.woff'' then ''font/woff''
      else if endsWith path ''.woff2'' then ''font/woff2''
      else ''application/octet-stream'')"

text \<open>
  The lambda: \<open>std::nullopt\<close> is \<open>None\<close>. The flag of \<open>loadFileAsData\<close> is dropped, as
  the source calls it as a statement; the payload is the whole memory block.
\<close>

definition resourceProvider :: "'f file_api \<Rightarrow> 'f \<Rightarrow> string \<Rightarrow> resource option" where
  "resourceProvider lib resourcesDir url =
     (let path = normalisePath url;
          file = getChildFile lib resourcesDir path
      in if \<not> existsAsFile lib file then None
         else let mime = mimeTypeFor path;
                  block = snd (loadFileAsData lib file)
              in Some \<lparr>data = block, mimeType = mime\<rparr>)"

subsection \<open>Relays, attachments and the WebView component\<close>

datatype relayKind = SliderRelay | ToggleButtonRelay | ComboBoxRelay

record relay =
  relayIdentifier :: string
  kind :: relayKind

record parameter =
  paramID :: string

text \<open>The processor is seen through \<open>getAPVTS().getParameter (id)\<close>, a null pointer on an
  unknown identifier.\<close>

record processor =
  getParameter :: "string \<Rightarrow> parameter option"

record attachment =
  attachedParameter :: parameter
  attachedRelay :: relay

datatype backend = defaultBackend | webview2

record options =
  backend :: backend
  nativeIntegrationEnabled :: bool
  hasResourceProvider :: bool
  registeredRelays :: "relay list"

definition Options :: options where
  "Options = \<lparr>backend = defaultBackend, nativeIntegrationEnabled = False,
              hasResourceProvider = False, registeredRelays = []\<rparr>"

definition withBackend :: "backend \<Rightarrow> options \<Rightarrow> options" where
  "withBackend b opts = opts\<lparr>backend := b\<rparr>"

definition withNativeIntegrationEnabled :: "options \<Rightarrow> options" where
  "withNativeIntegrationEnabled opts = opts\<lparr>nativeIntegrationEnabled := True\<rparr>"

definition withResourceProvider :: "options \<Rightarrow> options" where
  "withResourceProvider opts = opts\<lparr>hasResourceProvider := True\<rparr>"

definition withOptionsFrom :: "relay \<Rightarrow> options \<Rightarrow> options" where
  "withOptionsFrom r opts = opts\<lparr>registeredRelays := registeredRelays opts @ [r]\<rparr>"

text \<open>A \<open>juce::DynamicObject\<close> is its list of properties.\<close>

type_synonym dynamicObject = "(string \<times> string) list"

record webBrowserComponent =
  browserOptions :: options
  currentURL :: "string option"
  browserVisible :: bool
  deliveredEvents :: "(string \<times> dynamicObject) list"
  browserBounds :: "nat \<times> nat"

definition WebBrowserComponent :: "options \<Rightarrow> webBrowserComponent" where
  "WebBrowserComponent opts =
     \<lparr>browserOptions = opts, currentURL = None, browserVisible = False,
      deliveredEvents = [], browserBounds = (0, 0)\<rparr>"

definition goToURL :: "string \<Rightarrow> webBrowserComponent \<Rightarrow> webBrowserComponent" where
  "goToURL url wb = wb\<lparr>currentURL := Some url\<rparr>"

definition setBounds :: "nat \<times> nat \<Rightarrow> webBrowserComponent \<Rightarrow> webBrowserComponent" where
  "setBounds b wb = wb\<lparr>browserBounds := b\<rparr>"

definition setVisible :: "bool \<Rightarrow> webBrowserComponent \<Rightarrow> webBrowserComponent" where
  "setVisible v wb = wb\<lparr>browserVisible := v\<rparr>"

text \<open>
  Modelled from the spec: \<open>juce::WebBrowserComponent::emitEventIfBrowserIsVisible\<close> is not
  in the source file. The spec's Event Channel checks a visibility guard before emission:
  with the guard true the message is delivered, with the guard false the call is a no-op
  and nothing is queued. The source's comment at line 180 says the same of it.
\<close>

definition emitEventIfBrowserIsVisible ::
  "string \<Rightarrow> dynamicObject \<Rightarrow> webBrowserComponent \<Rightarrow> webBrowserComponent" where
  "emitEventIfBrowserIsVisible eventId object wb =
     (if browserVisible wb then wb\<lparr>deliveredEvents := deliveredEvents wb @ [(eventId, object)]\<rparr>
      else wb)"

subsection \<open>The editor\<close>

definition DEV_SERVER_URL :: string where
  "DEV_SERVER_URL = ''http://localhost:5173''"

text \<open>
  What is fixed when the plugin is built: the macro \<open>{{PLUGIN_NAME_UPPER}}_DEV_MODE\<close>, the
  identifiers of the header \<open>ParameterIDs.h\<close>, and the library's
  \<open>getResourceProviderRoot()\<close>.
\<close>

record build =
  DEV_MODE :: bool
  ParamIDs_gain :: string
  ParamIDs_mix :: string
  ParamIDs_bypass :: string
  getResourceProviderRoot :: string

datatype error = NullDereference string

text \<open>The construction log: one entry for each step of the constructor that a later step
  depends on, appended when the step runs.\<close>

datatype event =
    RelayCreated string
  | RelayRegistered string
  | BrowserConstructed "string list"
  | Navigated string
  | AttachmentCreated string string
  | TimerStarted nat

record 'f editor =
  processorRef :: processor
  gainRelay :: "relay option"
  mixRelay :: "relay option"
  bypassRelay :: "relay option"
  resourcesDir :: "'f"
  webView :: "webBrowserComponent option"
  gainAttachment :: "attachment option"
  mixAttachment :: "attachment option"
  bypassAttachment :: "attachment option"
  editorSize :: "nat \<times> nat"
  resizable :: bool
  cornerResizer :: bool
  timerHz :: "nat option"
  constructionLog :: "event list"

definition logEvents :: "event list \<Rightarrow> 'f editor \<Rightarrow> 'f editor" where
  "logEvents evs ed = ed\<lparr>constructionLog := constructionLog ed @ evs\<rparr>"

text \<open>The members as they are when the constructor's body starts.\<close>

definition newEditor :: "'f file_api \<Rightarrow> processor \<Rightarrow> 'f editor" where
  "newEditor lib p =
     \<lparr>processorRef = p, gainRelay = None, mixRelay = None, bypassRelay = None,
      resourcesDir = defaultFile lib, webView = None,
      gainAttachment = None, mixAttachment = None, bypassAttachment = None,
      editorSize = (0, 0), resizable = True, cornerResizer = True, timerHz = None, constructionLog = []\<rparr>"

text \<open>\<open>setupWebView\<close>, step 1 (lines 50 to 54).\<close>

definition createRelays :: "'f editor \<Rightarrow> 'f editor" where
  "createRelays ed =
     (let ed1 = logEvents [RelayCreated ''gain'']
                  (ed\<lparr>gainRelay := Some \<lparr>relayIdentifier = ''gain'', kind = SliderRelay\<rparr>\<rparr>);
          ed2 = logEvents [RelayCreated ''mix'']
                  (ed1\<lparr>mixRelay := Some \<lparr>relayIdentifier = ''mix'', kind = SliderRelay\<rparr>\<rparr>)
      in logEvents [RelayCreated ''bypass'']
           (ed2\<lparr>bypassRelay := Some \<lparr>relayIdentifier = ''bypass'', kind = ToggleButtonRelay\<rparr>\<rparr>))"

text \<open>Step 2 (lines 62 to 65).\<close>

definition locateResources :: "'f file_api \<Rightarrow> 'f editor \<Rightarrow> 'f editor" where
  "locateResources lib ed =
     ed\<lparr>resourcesDir :=
          getChildFile lib
            (getChildFile lib (getParentDirectory lib (currentExecutableFile lib)) ''Resources'')
            ''WebUI''\<rparr>"

text \<open>
  Step 3 (lines 70 to 121): the options, built in the source's order. \<open>*gainRelay\<close>,
  \<open>*mixRelay\<close> and \<open>*bypassRelay\<close> dereference the members; a null member is an error
  value here. The WebView2 options of lines 115 to 121 set a colour, the status bar and a
  data folder and are left out.
\<close>

definition buildOptions :: "'f editor \<Rightarrow> error + options" where
  "buildOptions ed =
     (case gainRelay ed of
        None \<Rightarrow> Inl (NullDereference ''gainRelay'')
      | Some g \<Rightarrow>
     (case mixRelay ed of
        None \<Rightarrow> Inl (NullDereference ''mixRelay'')
      | Some m \<Rightarrow>
     (case bypassRelay ed of
        None \<Rightarrow> Inl (NullDereference ''bypassRelay'')
      | Some b \<Rightarrow>
          Inr (withOptionsFrom b (withOptionsFrom m (withOptionsFrom g
                (withResourceProvider (withNativeIntegrationEnabled
                   (withBackend webview2 Options)))))))))"

text \<open>Lines 124 and 125.\<close>

definition createWebView :: "options \<Rightarrow> 'f editor \<Rightarrow> 'f editor" where
  "createWebView opts ed =
     logEvents [BrowserConstructed (map relayIdentifier (registeredRelays opts))]
       (ed\<lparr>webView := Some (setVisible True (WebBrowserComponent opts))\<rparr>)"

text \<open>Step 4 (lines 130 to 136): the preprocessor branch on the build's mode.\<close>

definition loadURL :: "build \<Rightarrow> 'f editor \<Rightarrow> error + 'f editor" where
  "loadURL b ed =
     (case webView ed of
        None \<Rightarrow> Inl (NullDereference ''webView'')
      | Some wb \<Rightarrow>
          (let url = (if DEV_MODE b then DEV_SERVER_URL else getResourceProviderRoot b)
           in Inr (logEvents [Navigated url] (ed\<lparr>webView := Some (goToURL url wb)\<rparr>))))"

definition setupWebView :: "'f file_api \<Rightarrow> build \<Rightarrow> 'f editor \<Rightarrow> error + 'f editor" where
  "setupWebView lib b ed =
     (let ed1 = createRelays ed;
          ed2 = locateResources lib ed1
      in case buildOptions ed2 of
           Inl e \<Rightarrow> Inl e
         | Inr opts \<Rightarrow>
             loadURL b
               (createWebView opts
                  (logEvents (map (RelayRegistered \<circ> relayIdentifier) (registeredRelays opts)) ed2)))"

text \<open>\<open>setupRelaysAndAttachments\<close> (lines 151 to 161): \<open>*apvts.getParameter (id)\<close> and the
  relay member are both dereferenced.\<close>

definition makeAttachment ::
  "processor \<Rightarrow> string \<Rightarrow> string \<Rightarrow> relay option \<Rightarrow> error + attachment" where
  "makeAttachment p paramId member r =
     (case getParameter p paramId of
        None \<Rightarrow> Inl (NullDereference paramId)
      | Some prm \<Rightarrow>
          (case r of
             None \<Rightarrow> Inl (NullDereference member)
           | Some rl \<Rightarrow> Inr \<lparr>attachedParameter = prm, attachedRelay = rl\<rparr>))"

definition setupRelaysAndAttachments :: "build \<Rightarrow> 'f editor \<Rightarrow> error + 'f editor" where
  "setupRelaysAndAttachments b ed =
     (case makeAttachment (processorRef ed) (ParamIDs_gain b) ''gainRelay'' (gainRelay ed) of
        Inl e \<Rightarrow> Inl e
      | Inr ga \<Rightarrow>
     (case makeAttachment (processorRef ed) (ParamIDs_mix b) ''mixRelay'' (mixRelay ed) of
        Inl e \<Rightarrow> Inl e
      | Inr ma \<Rightarrow>
     (case makeAttachment (processorRef ed) (ParamIDs_bypass b) ''bypassRelay'' (bypassRelay ed) of
        Inl e \<Rightarrow> Inl e
      | Inr ba \<Rightarrow>
          Inr (logEvents
                 [AttachmentCreated (ParamIDs_gain b) ''gain'',
                  AttachmentCreated (ParamIDs_mix b) ''mix'',
                  AttachmentCreated (ParamIDs_bypass b) ''bypass'']
                 (ed\<lparr>gainAttachment := Some ga, mixAttachment := Some ma,
                     bypassAttachment := Some ba\<rparr>)))))"

text \<open>\<open>resized\<close> (lines 206 to 210) and \<open>paint\<close> (lines 200 to 204), which draws and
  keeps no state.\<close>

definition resized :: "'f editor \<Rightarrow> 'f editor" where
  "resized ed =
     (case webView ed of
        None \<Rightarrow> ed
      | Some wb \<Rightarrow> ed\<lparr>webView := Some (setBounds (editorSize ed) wb)\<rparr>)"

definition paint :: "'f editor \<Rightarrow> 'f editor" where
  "paint ed = ed"

text \<open>The three calls that end the constructor (lines 27 to 31). A component whose size
  changes is told so through \<open>resized\<close>.\<close>

definition setSize :: "nat \<Rightarrow> nat \<Rightarrow> 'f editor \<Rightarrow> 'f editor" where
  "setSize w h ed = resized (ed\<lparr>editorSize := (w, h)\<rparr>)"

definition setResizable :: "bool \<Rightarrow> bool \<Rightarrow> 'f editor \<Rightarrow> 'f editor" where
  "setResizable r c ed = ed\<lparr>resizable := r, cornerResizer := c\<rparr>"

definition startTimerHz :: "nat \<Rightarrow> 'f editor \<Rightarrow> 'f editor" where
  "startTimerHz hz ed = logEvents [TimerStarted hz] (ed\<lparr>timerHz := Some hz\<rparr>)"

text \<open>The destructor (lines 34 to 37).\<close>

definition stopTimer :: "'f editor \<Rightarrow> 'f editor" where
  "stopTimer ed = ed\<lparr>timerHz := None\<rparr>"

text \<open>The constructor (lines 19 to 32).\<close>

definition PluginEditor :: "'f file_api \<Rightarrow> build \<Rightarrow> processor \<Rightarrow> error + 'f editor" where
  "PluginEditor lib b p =
     (case setupWebView lib b (newEditor lib p) of
        Inl e \<Rightarrow> Inl e
      | Inr ed1 \<Rightarrow>
          (case setupRelaysAndAttachments b ed1 of
             Inl e \<Rightarrow> Inl e
           | Inr ed2 \<Rightarrow> Inr (startTimerHz 30 (setResizable False False (setSize 800 500 ed2)))))"

text \<open>\<open>sendVisualizerData\<close> (lines 174 to 197) and the timer callback. The data object is
  built with no property set.\<close>

definition sendVisualizerData :: "'f editor \<Rightarrow> 'f editor" where
  "sendVisualizerData ed =
     (case webView ed of
        None \<Rightarrow> ed
      | Some wb \<Rightarrow> ed\<lparr>webView := Some (emitEventIfBrowserIsVisible ''visualizerData'' [] wb)\<rparr>)"

definition timerCallback :: "'f editor \<Rightarrow> 'f editor" where
  "timerCallback ed = sendVisualizerData ed"

text \<open>A request reaching the lambda of a constructed editor: the lambda captures \<open>this\<close>,
  reads \<open>resourcesDir\<close> and assigns to no member.\<close>

definition resourceRequest :: "'f file_api \<Rightarrow> 'f editor \<Rightarrow> string \<Rightarrow> resource option \<times> 'f editor" where
  "resourceRequest lib ed url = (resourceProvider lib (resourcesDir ed) url, ed)"




text \<open>What can happen to a constructed editor: the calls its source file defines, and the
  host showing or hiding the browser.\<close>

datatype call =
    TimerCallback
  | Paint
  | Resized
  | ResourceRequest string
  | VisibilityChanged bool

definition handleCall :: "'f file_api \<Rightarrow> 'f editor \<Rightarrow> call \<Rightarrow> 'f editor" where
  "handleCall lib ed c =
     (case c of
        TimerCallback \<Rightarrow> timerCallback ed
      | Paint \<Rightarrow> paint ed
      | Resized \<Rightarrow> resized ed
      | ResourceRequest url \<Rightarrow> snd (resourceRequest lib ed url)
      | VisibilityChanged v \<Rightarrow>
          (case webView ed of
             None \<Rightarrow> ed
           | Some wb \<Rightarrow> ed\<lparr>webView := Some (setVisible v wb)\<rparr>))"

definition runCalls :: "'f file_api \<Rightarrow> 'f editor \<Rightarrow> call list \<Rightarrow> 'f editor" where
  "runCalls lib ed cs = foldl (handleCall lib) ed cs"

definition navigationTarget :: "'f editor \<Rightarrow> string option" where
  "navigationTarget ed = (case webView ed of None \<Rightarrow> None | Some wb \<Rightarrow> currentURL wb)"

definition providerInstalled :: "'f editor \<Rightarrow> bool" where
  "providerInstalled ed =
     (case webView ed of None \<Rightarrow> False | Some wb \<Rightarrow> hasResourceProvider (browserOptions wb))"

definition deliveredToUI :: "'f editor \<Rightarrow> (string \<times> dynamicObject) list" where
  "deliveredToUI ed = (case webView ed of None \<Rightarrow> [] | Some wb \<Rightarrow> deliveredEvents wb)"

definition browserRelays :: "'f editor \<Rightarrow> string list" where
  "browserRelays ed =
     (case webView ed of
        None \<Rightarrow> []
      | Some wb \<Rightarrow> map relayIdentifier (registeredRelays (browserOptions wb)))"

subsection \<open>A small filesystem on which the library's file functions can be evaluated\<close>

text \<open>
  A location is the list of its path segments from the filesystem's root. A regular file
  has contents and, when reading it breaks off, the number of bytes read before that.
  \<open>getChildFile\<close> follows the library's documentation of it: from \<open>/moose/fish\<close>, the
  child \<open>haddock/foo.txt\<close> is \<open>/moose/fish/haddock/foo.txt\<close>, the child \<open>../foo.txt\<close> is
  \<open>/moose/foo.txt\<close>, and the child \<open>/foo.txt\<close>, an absolute path, is \<open>/foo.txt\<close>.
  \<open>loadFileAsData\<close> reports success when the whole file was read. These definitions serve
  to evaluate the source's functions on concrete requests; the general statements below
  are about every \<open>file_api\<close>.
\<close>

type_synonym location = "string list"

datatype node = RegularFile "byte list" "nat option" | Directory

fun splitPath :: "string \<Rightarrow> string list" where
  "splitPath [] = [[]]"
| "splitPath (c # cs) =
     (if c = CHR ''/'' then [] # splitPath cs
      else (case splitPath cs of [] \<Rightarrow> [[c]] | s # ss \<Rightarrow> (c # s) # ss))"

fun walk :: "location \<Rightarrow> string list \<Rightarrow> location" where
  "walk dir [] = dir"
| "walk dir (s # ss) =
     (if s = ''..'' then walk (butlast dir) ss
      else if s = ''.'' \<or> s = [] then walk dir ss
      else walk (dir @ [s]) ss)"

definition diskApi :: "(location \<times> node) list \<Rightarrow> location \<Rightarrow> location file_api" where
  "diskApi disk exe =
     \<lparr>getChildFile = (\<lambda>dir rel. if startsWith rel ''/'' then walk [] (splitPath rel)
                                 else walk dir (splitPath rel)),
      getParentDirectory = butlast,
      existsAsFile = (\<lambda>f. case map_of disk f of
                             Some (RegularFile bs fault) \<Rightarrow> True
                           | _ \<Rightarrow> False),
      loadFileAsData = (\<lambda>f. case map_of disk f of
                               Some (RegularFile bs None) \<Rightarrow> (True, bs)
                             | Some (RegularFile bs (Some n)) \<Rightarrow> (False, take n bs)
                             | _ \<Rightarrow> (False, [])),
      fileContents = (\<lambda>f. case map_of disk f of
                             Some (RegularFile bs fault) \<Rightarrow> bs
                           | _ \<Rightarrow> []),
      currentExecutableFile = exe,
      defaultFile = []\<rparr>"

text \<open>A plugin installed at \<open>/opt/plugin\<close>: its asset root with three files, one of which
  cannot be read, and a file beside the asset root.\<close>

definition demoRoot :: location where
  "demoRoot = [''opt'', ''plugin'', ''Resources'', ''WebUI'']"

definition demoDisk :: "(location \<times> node) list" where
  "demoDisk =
     [([''opt'', ''plugin'', ''Resources'', ''WebUI''], Directory),
      ([''opt'', ''plugin'', ''Resources'', ''WebUI'', ''index.html''],
         RegularFile [60, 104, 62] None),
      ([''opt'', ''plugin'', ''Resources'', ''WebUI'', ''x.js''], RegularFile [49, 59] None),
      ([''opt'', ''plugin'', ''Resources'', ''WebUI'', ''assets''], Directory),
      ([''opt'', ''plugin'', ''Resources'', ''WebUI'', ''locked.css''],
         RegularFile [97, 123, 125] (Some 0)),
      ([''opt'', ''plugin'', ''Resources'', ''secret''], RegularFile [107, 101, 121] None)]"

definition demoApi :: "location file_api" where
  "demoApi = diskApi demoDisk [''opt'', ''plugin'', ''plugin.vst3'']"

text \<open>A processor with the three parameters, a build in either mode, and the editor the
  constructor makes of them.\<close>

definition demoProcessor :: processor where
  "demoProcessor =
     \<lparr>getParameter = (\<lambda>i. if i \<in> set [''gain'', ''mix'', ''bypass'']
                            then Some \<lparr>paramID = i\<rparr> else None)\<rparr>"

definition demoBuild :: "bool \<Rightarrow> build" where
  "demoBuild dev =
     \<lparr>DEV_MODE = dev, ParamIDs_gain = ''gain'', ParamIDs_mix = ''mix'',
      ParamIDs_bypass = ''bypass'', getResourceProviderRoot = ''https://juce.backend/''\<rparr>"

definition demoEditor :: "bool \<Rightarrow> location editor" where
  "demoEditor dev =
     (case PluginEditor demoApi (demoBuild dev) demoProcessor of
        Inr ed \<Rightarrow> ed
      | Inl e \<Rightarrow> newEditor demoApi demoProcessor)"

section \<open>Properties\<close>

subsection \<open>Suffix tests and the resource provider's two outcomes\<close>

lemma endsWith_rev: "endsWith s t = (take (length t) (rev s) = rev t)"
proof (cases "length t \<le> length s")
  case True
  then have "rev (drop (length s - length t) s) = take (length t) (rev s)"
    by (simp add: rev_drop)
  then show ?thesis
    using True by (metis endsWith_def rev_rev_ident)
next
  case False
  then have "length (take (length t) (rev s)) \<noteq> length (rev t)" by simp
  then have "take (length t) (rev s) \<noteq> rev t" by metis
  then show ?thesis using False by (simp add: endsWith_def)
qed

lemma endsWith_suffix: "endsWith s t = suffix t s"
proof
  assume "endsWith s t"
  then have "s = take (length s - length t) s @ t"
    by (metis endsWith_def append_take_drop_id)
  then show "suffix t s" by (metis suffixI)
next
  assume "suffix t s"
  then obtain p where "s = p @ t" by (auto simp: suffix_def)
  then show "endsWith s t" by (simp add: endsWith_def)
qed

lemma resourceProvider_cases:
  "resourceProvider lib dir url =
     (if existsAsFile lib (getChildFile lib dir (normalisePath url))
      then Some \<lparr>data = snd (loadFileAsData lib (getChildFile lib dir (normalisePath url))),
                 mimeType = mimeTypeFor (normalisePath url)\<rparr>
      else None)"
  by (simp add: resourceProvider_def Let_def)

lemma diskApi_load_contract:
  "loadFileAsData (diskApi disk exe) f = (True, bs) \<Longrightarrow> bs = fileContents (diskApi disk exe) f"
  by (auto simp: diskApi_def split: option.splits node.splits)

subsection \<open>Paths that leave the asset root\<close>

text \<open>
  C1 says that a request whose path resolves outside the asset root, such as
  \<open>../secret\<close>, is answered NotFound. The lambda never compares the resolved location
  with \<open>resourcesDir\<close>: its only test is \<open>existsAsFile\<close>. On the small filesystem, where
  \<open>..\<close> goes up one level, \<open>../secret\<close> resolves to a regular file beside the asset root
  and is served.
\<close>

theorem served_outside_asset_root:
  "\<not> prefix demoRoot (getChildFile demoApi demoRoot (normalisePath ''../secret''))
   \<and> resourceProvider demoApi demoRoot ''../secret''
       = Some \<lparr>data = [107, 101, 121], mimeType = ''application/octet-stream''\<rparr>"
  by code_simp

text \<open>
  C1, as the code has it: for every library behaviour, asset root and URL, the provider
  answers NotFound exactly when no regular file exists at the location \<open>getChildFile\<close>
  gives for the normalised path, wherever that location lies.
\<close>

theorem not_found_iff_no_regular_file:
  "(resourceProvider lib dir url = None)
     = (\<not> existsAsFile lib (getChildFile lib dir (normalisePath url)))"
  by (simp add: resourceProvider_cases)

theorem not_found_iff_no_regular_file_witness:
  "resourceProvider demoApi demoRoot ''missing.png'' = None
   \<and> resourceProvider demoApi demoRoot ''assets'' = None
   \<and> resourceProvider demoApi demoRoot ''../secret'' \<noteq> None"
proof -
  have a: "\<not> existsAsFile demoApi (getChildFile demoApi demoRoot (normalisePath ''missing.png''))"
    by code_simp
  have b: "\<not> existsAsFile demoApi (getChildFile demoApi demoRoot (normalisePath ''assets''))"
    by code_simp
  have c: "existsAsFile demoApi (getChildFile demoApi demoRoot (normalisePath ''../secret''))"
    by code_simp
  show ?thesis
    using a b c
      not_found_iff_no_regular_file [of demoApi demoRoot "''missing.png''"]
      not_found_iff_no_regular_file [of demoApi demoRoot "''assets''"]
      not_found_iff_no_regular_file [of demoApi demoRoot "''../secret''"]
    by blast
qed

subsection \<open>The payload\<close>

text \<open>
  C4 says that the payload of a returned resource is always the complete contents of the
  file. The source drops the flag of \<open>loadFileAsData\<close>, so a file that exists and cannot
  be read is answered with the bytes the failed read left behind: here none, for a file
  of three bytes.
\<close>

theorem payload_of_failed_read:
  "resourceProvider demoApi demoRoot ''locked.css'' = Some \<lparr>data = [], mimeType = ''text/css''\<rparr>
   \<and> fileContents demoApi (getChildFile demoApi demoRoot (normalisePath ''locked.css''))
       = [97, 123, 125]"
  by code_simp

text \<open>
  C4, as the code has it: when the provider returns a resource and the one call of
  \<open>loadFileAsData\<close> reports success, the payload is the whole memory block of that call,
  and so the complete contents of the resolved file, given that a successful
  \<open>loadFileAsData\<close> yields the file's contents.
\<close>

theorem payload_is_whole_file:
  assumes "resourceProvider lib dir url = Some r"
    and "loadFileAsData lib (getChildFile lib dir (normalisePath url)) = (True, block)"
    and "\<And>f bs. loadFileAsData lib f = (True, bs) \<Longrightarrow> bs = fileContents lib f"
  shows "data r = block \<and> data r = fileContents lib (getChildFile lib dir (normalisePath url))"
proof -
  have "data r = snd (loadFileAsData lib (getChildFile lib dir (normalisePath url)))"
    using assms(1) by (auto simp: resourceProvider_cases split: if_splits)
  then have "data r = block" using assms(2) by simp
  then show ?thesis using assms(2,3) by blast
qed

theorem payload_is_whole_file_witness:
  "resourceProvider demoApi demoRoot ''/x.js''
     = Some \<lparr>data = [49, 59], mimeType = ''application/javascript''\<rparr>
   \<and> fileContents demoApi (getChildFile demoApi demoRoot (normalisePath ''/x.js'')) = [49, 59]"
proof -
  have a: "resourceProvider demoApi demoRoot ''/x.js''
             = Some \<lparr>data = [49, 59], mimeType = ''application/javascript''\<rparr>"
    by code_simp
  have b: "loadFileAsData demoApi (getChildFile demoApi demoRoot (normalisePath ''/x.js''))
             = (True, [49, 59])"
    by code_simp
  have c: "\<And>f bs. loadFileAsData demoApi f = (True, bs) \<Longrightarrow> bs = fileContents demoApi f"
    unfolding demoApi_def by (rule diskApi_load_contract)
  from payload_is_whole_file [OF a b c] a show ?thesis by simp
qed

text \<open>
  C10: once \<open>existsAsFile\<close> holds, the provider returns a resource whatever the flag of
  \<open>loadFileAsData\<close> is: the payload is what the call left in the memory block, the MIME
  type is the one classified from the path, and no error reaches the caller.
\<close>

theorem existing_file_is_served_whatever_the_read:
  assumes "existsAsFile lib (getChildFile lib dir (normalisePath url))"
    and "loadFileAsData lib (getChildFile lib dir (normalisePath url)) = (ok, block)"
  shows "resourceProvider lib dir url
           = Some \<lparr>data = block, mimeType = mimeTypeFor (normalisePath url)\<rparr>"
  using assms by (simp add: resourceProvider_cases)

theorem existing_file_is_served_whatever_the_read_witness:
  "resourceProvider demoApi demoRoot ''locked.css''
     = Some \<lparr>data = [], mimeType = mimeTypeFor (normalisePath ''locked.css'')\<rparr>
   \<and> fst (loadFileAsData demoApi (getChildFile demoApi demoRoot (normalisePath ''locked.css''))) = False"
proof -
  have a: "existsAsFile demoApi (getChildFile demoApi demoRoot (normalisePath ''locked.css''))"
    by code_simp
  have b: "loadFileAsData demoApi (getChildFile demoApi demoRoot (normalisePath ''locked.css''))
             = (False, [])"
    by code_simp
  from existing_file_is_served_whatever_the_read [OF a b] b show ?thesis by simp
qed

subsection \<open>Normalisation and MIME classification\<close>

lemma normalisePath_slash:
  "normalisePath (CHR ''/'' # rest) = (if rest = [] then ''index.html'' else rest)"
  by (simp add: normalisePath_def startsWith_def substring_def isEmpty_def)

lemma normalisePath_other: "c \<noteq> CHR ''/'' \<Longrightarrow> normalisePath (c # rest) = c # rest"
  by (simp add: normalisePath_def startsWith_def substring_def isEmpty_def)

lemma normalisePath_empty: "normalisePath [] = ''index.html''"
  by (simp add: normalisePath_def startsWith_def substring_def isEmpty_def)

text \<open>
  C2: for every URL the provider looks up, classifies and serves the path that is left
  when exactly one leading \<open>/\<close>, if there is one, is dropped, and \<open>index.html\<close> when
  nothing is left. So a URL and the same URL with one \<open>/\<close> before it are answered alike,
  and the empty URL and \<open>/\<close> are both answered as \<open>index.html\<close> is.
\<close>

theorem normalise_strips_one_separator:
  "normalisePath [] = ''index.html''
   \<and> normalisePath ''/'' = ''index.html''
   \<and> (rest \<noteq> [] \<longrightarrow> normalisePath (CHR ''/'' # rest) = rest)
   \<and> (c \<noteq> CHR ''/'' \<longrightarrow> normalisePath (c # rest) = c # rest)
   \<and> resourceProvider lib dir [] = resourceProvider lib dir ''index.html''
   \<and> resourceProvider lib dir ''/'' = resourceProvider lib dir ''index.html''
   \<and> (c \<noteq> CHR ''/'' \<longrightarrow>
        resourceProvider lib dir (CHR ''/'' # c # rest) = resourceProvider lib dir (c # rest))
   \<and> resourceProvider lib dir url =
        (if existsAsFile lib (getChildFile lib dir (normalisePath url))
         then Some \<lparr>data = snd (loadFileAsData lib (getChildFile lib dir (normalisePath url))),
                    mimeType = mimeTypeFor (normalisePath url)\<rparr>
         else None)
   \<and> (rest \<noteq> [] \<longrightarrow>
        resourceProvider lib dir (CHR ''/'' # rest) =
          (if existsAsFile lib (getChildFile lib dir rest)
           then Some \<lparr>data = snd (loadFileAsData lib (getChildFile lib dir rest)),
                      mimeType = mimeTypeFor rest\<rparr>
           else None))"
proof -
  have a: "c \<noteq> CHR ''/'' \<Longrightarrow>
        resourceProvider lib dir (CHR ''/'' # c # rest) = resourceProvider lib dir (c # rest)"
    by (simp add: resourceProvider_cases normalisePath_slash normalisePath_other)
  have b: "resourceProvider lib dir [] = resourceProvider lib dir ''index.html''"
    by (simp add: resourceProvider_cases normalisePath_empty normalisePath_other)
  have c: "resourceProvider lib dir ''/'' = resourceProvider lib dir ''index.html''"
    by (simp add: resourceProvider_cases normalisePath_slash normalisePath_other)
  have d: "rest \<noteq> [] \<Longrightarrow>
        resourceProvider lib dir (CHR ''/'' # rest) =
          (if existsAsFile lib (getChildFile lib dir rest)
           then Some \<lparr>data = snd (loadFileAsData lib (getChildFile lib dir rest)),
                      mimeType = mimeTypeFor rest\<rparr>
           else None)"
    by (simp add: resourceProvider_cases normalisePath_slash)
  show ?thesis
    using a b c d resourceProvider_cases [of lib dir url]
    by (simp add: normalisePath_slash normalisePath_other normalisePath_empty)
qed

theorem normalise_strips_one_separator_witness:
  "normalisePath ''//x.js'' = ''/x.js''
   \<and> normalisePath ''x.js'' = ''x.js''
   \<and> resourceProvider demoApi demoRoot ''/''
       = Some \<lparr>data = [60, 104, 62], mimeType = ''text/html''\<rparr>
   \<and> resourceProvider demoApi demoRoot []
       = Some \<lparr>data = [60, 104, 62], mimeType = ''text/html''\<rparr>
   \<and> resourceProvider demoApi demoRoot ''/x.js''
       = Some \<lparr>data = [49, 59], mimeType = ''application/javascript''\<rparr>
   \<and> resourceProvider demoApi demoRoot ''//x.js'' = None"
proof -
  have ix: "resourceProvider demoApi demoRoot ''index.html''
              = Some \<lparr>data = [60, 104, 62], mimeType = ''text/html''\<rparr>"
    by code_simp
  have xj: "resourceProvider demoApi demoRoot ''x.js''
              = Some \<lparr>data = [49, 59], mimeType = ''application/javascript''\<rparr>"
    by code_simp
  have ab: "\<not> existsAsFile demoApi (getChildFile demoApi demoRoot ''/x.js'')"
    by code_simp
  note t = normalise_strips_one_separator
             [where rest = "''/x.js''" and c = "CHR ''x''" and lib = demoApi and dir = demoRoot
                and url = "''x.js''"]
  note u = normalise_strips_one_separator
             [where rest = "''.js''" and c = "CHR ''x''" and lib = demoApi and dir = demoRoot
                and url = "''x.js''"]
  have a: "normalisePath ''//x.js'' = ''/x.js''" using t by simp
  have b: "normalisePath ''x.js'' = ''x.js''" using u by simp
  have c: "resourceProvider demoApi demoRoot ''/'' = resourceProvider demoApi demoRoot ''index.html''"
    using t by blast
  have d: "resourceProvider demoApi demoRoot [] = resourceProvider demoApi demoRoot ''index.html''"
    using t by blast
  have e: "resourceProvider demoApi demoRoot ''/x.js'' = resourceProvider demoApi demoRoot ''x.js''"
    using u by simp
  have f: "resourceProvider demoApi demoRoot ''//x.js'' = None"
    using t ab by simp
  show ?thesis using a b c d e f ix xj by simp
qed

lemma mimeTypeFor_table:
  "mimeTypeFor (p @ ''.html'') = ''text/html''"
  "mimeTypeFor (p @ ''.css'') = ''text/css''"
  "mimeTypeFor (p @ ''.js'') = ''application/javascript''"
  "mimeTypeFor (p @ ''.json'') = ''application/json''"
  "mimeTypeFor (p @ ''.png'') = ''image/png''"
  "mimeTypeFor (p @ ''.jpg'') = ''image/jpeg''"
  "mimeTypeFor (p @ ''.jpeg'') = ''image/jpeg''"
  "mimeTypeFor (p @ ''.svg'') = ''image/svg+xml''"
  "mimeTypeFor (p @ ''.woff'') = ''font/woff''"
  "mimeTypeFor (p @ ''.woff2'') = ''font/woff2''"
  by (simp_all add: mimeTypeFor_def endsWith_rev)

lemma mimeTypeFor_default:
  "\<not> suffix ''.html'' path \<Longrightarrow> \<not> suffix ''.css'' path \<Longrightarrow> \<not> suffix ''.js'' path \<Longrightarrow>
   \<not> suffix ''.json'' path \<Longrightarrow> \<not> suffix ''.png'' path \<Longrightarrow> \<not> suffix ''.jpg'' path \<Longrightarrow>
   \<not> suffix ''.jpeg'' path \<Longrightarrow> \<not> suffix ''.svg'' path \<Longrightarrow> \<not> suffix ''.woff'' path \<Longrightarrow>
   \<not> suffix ''.woff2'' path \<Longrightarrow> mimeTypeFor path = ''application/octet-stream''"
  by (simp add: mimeTypeFor_def endsWith_suffix)

lemma resourceProvider_mime:
  "resourceProvider lib dir url = Some r \<Longrightarrow> mimeType r = mimeTypeFor (normalisePath url)"
  by (auto simp: resourceProvider_cases split: if_splits)

text \<open>
  C3: the MIME type of a served resource is the one of the table for the suffix of the
  normalised path, and \<open>application/octet-stream\<close> for a path with none of the ten
  suffixes. No two suffixes of the table end the same path, so the order of the tests
  does not show.
\<close>

theorem mime_type_by_suffix_table:
  "mimeTypeFor (p @ ''.html'') = ''text/html''
   \<and> mimeTypeFor (p @ ''.css'') = ''text/css''
   \<and> mimeTypeFor (p @ ''.js'') = ''application/javascript''
   \<and> mimeTypeFor (p @ ''.json'') = ''application/json''
   \<and> mimeTypeFor (p @ ''.png'') = ''image/png''
   \<and> mimeTypeFor (p @ ''.jpg'') = ''image/jpeg''
   \<and> mimeTypeFor (p @ ''.jpeg'') = ''image/jpeg''
   \<and> mimeTypeFor (p @ ''.svg'') = ''image/svg+xml''
   \<and> mimeTypeFor (p @ ''.woff'') = ''font/woff''
   \<and> mimeTypeFor (p @ ''.woff2'') = ''font/woff2''
   \<and> (\<not> suffix ''.html'' path \<and> \<not> suffix ''.css'' path \<and> \<not> suffix ''.js'' path
        \<and> \<not> suffix ''.json'' path \<and> \<not> suffix ''.png'' path \<and> \<not> suffix ''.jpg'' path
        \<and> \<not> suffix ''.jpeg'' path \<and> \<not> suffix ''.svg'' path \<and> \<not> suffix ''.woff'' path
        \<and> \<not> suffix ''.woff2'' path
        \<longrightarrow> mimeTypeFor path = ''application/octet-stream'')
   \<and> (resourceProvider lib dir url = Some r \<longrightarrow> mimeType r = mimeTypeFor (normalisePath url))"
  using mimeTypeFor_table [of p] mimeTypeFor_default [of path] resourceProvider_mime [of lib dir url r]
  by blast

theorem mime_type_by_suffix_table_witness:
  "mimeTypeFor ''app.js'' = ''application/javascript''
   \<and> mimeTypeFor ''app.woff2'' = ''font/woff2''
   \<and> mimeTypeFor ''LICENSE.txt'' = ''application/octet-stream''
   \<and> mimeTypeFor ''PAGE.HTML'' = ''application/octet-stream''
   \<and> mimeType \<lparr>data = [49, 59], mimeType = ''application/javascript''\<rparr> = mimeTypeFor (normalisePath ''x.js'')"
proof -
  note t = mime_type_by_suffix_table
             [where p = "''app''" and path = "''LICENSE.txt''" and lib = demoApi and dir = demoRoot
                and url = "''x.js''" and r = "\<lparr>data = [49, 59], mimeType = ''application/javascript''\<rparr>"]
  note u = mime_type_by_suffix_table
             [where p = "''app''" and path = "''PAGE.HTML''" and lib = demoApi and dir = demoRoot
                and url = "''x.js''" and r = "\<lparr>data = [49, 59], mimeType = ''application/javascript''\<rparr>"]
  have r: "resourceProvider demoApi demoRoot ''x.js''
             = Some \<lparr>data = [49, 59], mimeType = ''application/javascript''\<rparr>"
    by code_simp
  have s1: "\<not> suffix ''.html'' ''LICENSE.txt'' \<and> \<not> suffix ''.css'' ''LICENSE.txt''
            \<and> \<not> suffix ''.js'' ''LICENSE.txt'' \<and> \<not> suffix ''.json'' ''LICENSE.txt''
            \<and> \<not> suffix ''.png'' ''LICENSE.txt'' \<and> \<not> suffix ''.jpg'' ''LICENSE.txt''
            \<and> \<not> suffix ''.jpeg'' ''LICENSE.txt'' \<and> \<not> suffix ''.svg'' ''LICENSE.txt''
            \<and> \<not> suffix ''.woff'' ''LICENSE.txt'' \<and> \<not> suffix ''.woff2'' ''LICENSE.txt''"
    by code_simp
  have s2: "\<not> suffix ''.html'' ''PAGE.HTML'' \<and> \<not> suffix ''.css'' ''PAGE.HTML''
            \<and> \<not> suffix ''.js'' ''PAGE.HTML'' \<and> \<not> suffix ''.json'' ''PAGE.HTML''
            \<and> \<not> suffix ''.png'' ''PAGE.HTML'' \<and> \<not> suffix ''.jpg'' ''PAGE.HTML''
            \<and> \<not> suffix ''.jpeg'' ''PAGE.HTML'' \<and> \<not> suffix ''.svg'' ''PAGE.HTML''
            \<and> \<not> suffix ''.woff'' ''PAGE.HTML'' \<and> \<not> suffix ''.woff2'' ''PAGE.HTML''"
    by code_simp
  have a: "mimeTypeFor ''app.js'' = ''application/javascript''" using t by simp
  have b: "mimeTypeFor ''app.woff2'' = ''font/woff2''" using t by simp
  have c: "mimeTypeFor ''LICENSE.txt'' = ''application/octet-stream''" using t s1 by blast
  have d: "mimeTypeFor ''PAGE.HTML'' = ''application/octet-stream''" using u s2 by blast
  have e: "mimeType \<lparr>data = [49, 59], mimeType = ''application/javascript''\<rparr> = mimeTypeFor (normalisePath ''x.js'')"
    using t r by blast
  show ?thesis using a b c d e by blast
qed

subsection \<open>Construction and the calls that follow it\<close>

lemmas browser_defs =
  WebBrowserComponent_def goToURL_def setBounds_def setVisible_def
  emitEventIfBrowserIsVisible_def

lemmas option_defs =
  Options_def withBackend_def withNativeIntegrationEnabled_def withResourceProvider_def
  withOptionsFrom_def

lemmas setup_defs =
  setupWebView_def createRelays_def locateResources_def buildOptions_def createWebView_def
  loadURL_def logEvents_def

lemmas view_defs =
  navigationTarget_def browserRelays_def deliveredToUI_def providerInstalled_def

lemma setupWebView_result:
  "\<exists>ed1. setupWebView lib b ed0 = Inr ed1
     \<and> navigationTarget ed1 = Some (if DEV_MODE b then DEV_SERVER_URL else getResourceProviderRoot b)
     \<and> browserRelays ed1 = [''gain'', ''mix'', ''bypass'']
     \<and> providerInstalled ed1
     \<and> processorRef ed1 = processorRef ed0
     \<and> gainRelay ed1 = Some \<lparr>relayIdentifier = ''gain'', kind = SliderRelay\<rparr>
     \<and> mixRelay ed1 = Some \<lparr>relayIdentifier = ''mix'', kind = SliderRelay\<rparr>
     \<and> bypassRelay ed1 = Some \<lparr>relayIdentifier = ''bypass'', kind = ToggleButtonRelay\<rparr>
     \<and> constructionLog ed1 = constructionLog ed0 @
          [RelayCreated ''gain'', RelayCreated ''mix'', RelayCreated ''bypass'',
           RelayRegistered ''gain'', RelayRegistered ''mix'', RelayRegistered ''bypass'',
           BrowserConstructed [''gain'', ''mix'', ''bypass''],
           Navigated (if DEV_MODE b then DEV_SERVER_URL else getResourceProviderRoot b)]"
  by (simp add: setup_defs option_defs browser_defs view_defs Let_def)

lemma setupRelaysAndAttachments_keeps:
  assumes "setupRelaysAndAttachments b ed1 = Inr ed2"
  shows "webView ed2 = webView ed1 \<and> gainRelay ed2 = gainRelay ed1 \<and> mixRelay ed2 = mixRelay ed1
         \<and> bypassRelay ed2 = bypassRelay ed1 \<and> resourcesDir ed2 = resourcesDir ed1
         \<and> constructionLog ed2 = constructionLog ed1 @
              [AttachmentCreated (ParamIDs_gain b) ''gain'',
               AttachmentCreated (ParamIDs_mix b) ''mix'',
               AttachmentCreated (ParamIDs_bypass b) ''bypass'']"
  using assms
  by (auto simp: setupRelaysAndAttachments_def logEvents_def split: sum.splits)

lemma finish_keeps:
  "navigationTarget (startTimerHz hz (setResizable r c (setSize w h ed))) = navigationTarget ed
   \<and> browserRelays (startTimerHz hz (setResizable r c (setSize w h ed))) = browserRelays ed
   \<and> providerInstalled (startTimerHz hz (setResizable r c (setSize w h ed))) = providerInstalled ed
   \<and> gainRelay (startTimerHz hz (setResizable r c (setSize w h ed))) = gainRelay ed
   \<and> mixRelay (startTimerHz hz (setResizable r c (setSize w h ed))) = mixRelay ed
   \<and> bypassRelay (startTimerHz hz (setResizable r c (setSize w h ed))) = bypassRelay ed
   \<and> constructionLog (startTimerHz hz (setResizable r c (setSize w h ed)))
       = constructionLog ed @ [TimerStarted hz]
   \<and> (webView (startTimerHz hz (setResizable r c (setSize w h ed))) = None) = (webView ed = None)"
  by (simp add: startTimerHz_def setResizable_def setSize_def resized_def logEvents_def
      view_defs browser_defs split: option.splits)

lemma PluginEditor_result:
  assumes "PluginEditor lib b p = Inr ed"
  shows "navigationTarget ed = Some (if DEV_MODE b then DEV_SERVER_URL else getResourceProviderRoot b)"
    and "browserRelays ed = [''gain'', ''mix'', ''bypass'']"
    and "gainRelay ed = Some \<lparr>relayIdentifier = ''gain'', kind = SliderRelay\<rparr>"
    and "mixRelay ed = Some \<lparr>relayIdentifier = ''mix'', kind = SliderRelay\<rparr>"
    and "bypassRelay ed = Some \<lparr>relayIdentifier = ''bypass'', kind = ToggleButtonRelay\<rparr>"
    and "constructionLog ed =
          [RelayCreated ''gain'', RelayCreated ''mix'', RelayCreated ''bypass'',
           RelayRegistered ''gain'', RelayRegistered ''mix'', RelayRegistered ''bypass'',
           BrowserConstructed [''gain'', ''mix'', ''bypass''],
           Navigated (if DEV_MODE b then DEV_SERVER_URL else getResourceProviderRoot b),
           AttachmentCreated (ParamIDs_gain b) ''gain'',
           AttachmentCreated (ParamIDs_mix b) ''mix'',
           AttachmentCreated (ParamIDs_bypass b) ''bypass'',
           TimerStarted 30]"
    and "webView ed \<noteq> None"
    and "providerInstalled ed"
proof -
  obtain ed1 where s1: "setupWebView lib b (newEditor lib p) = Inr ed1"
    and n1: "navigationTarget ed1 = Some (if DEV_MODE b then DEV_SERVER_URL else getResourceProviderRoot b)"
    and r1: "browserRelays ed1 = [''gain'', ''mix'', ''bypass'']"
    and i1: "providerInstalled ed1"
    and g1: "gainRelay ed1 = Some \<lparr>relayIdentifier = ''gain'', kind = SliderRelay\<rparr>"
    and m1: "mixRelay ed1 = Some \<lparr>relayIdentifier = ''mix'', kind = SliderRelay\<rparr>"
    and b1: "bypassRelay ed1 = Some \<lparr>relayIdentifier = ''bypass'', kind = ToggleButtonRelay\<rparr>"
    and l1: "constructionLog ed1 = constructionLog (newEditor lib p) @
          [RelayCreated ''gain'', RelayCreated ''mix'', RelayCreated ''bypass'',
           RelayRegistered ''gain'', RelayRegistered ''mix'', RelayRegistered ''bypass'',
           BrowserConstructed [''gain'', ''mix'', ''bypass''],
           Navigated (if DEV_MODE b then DEV_SERVER_URL else getResourceProviderRoot b)]"
    using setupWebView_result [of lib b "newEditor lib p"] by blast
  from assms s1 obtain ed2 where s2: "setupRelaysAndAttachments b ed1 = Inr ed2"
    and e: "ed = startTimerHz 30 (setResizable False False (setSize 800 500 ed2))"
    by (auto simp: PluginEditor_def split: sum.splits)
  note k = setupRelaysAndAttachments_keeps [OF s2]
  note f = finish_keeps [of 30 False False 800 500 ed2]
  have w: "navigationTarget ed2 = navigationTarget ed1" "browserRelays ed2 = browserRelays ed1"
    "providerInstalled ed2 = providerInstalled ed1"
    using k by (simp_all add: view_defs)
  show "navigationTarget ed = Some (if DEV_MODE b then DEV_SERVER_URL else getResourceProviderRoot b)"
    using e f w n1 by simp
  show "browserRelays ed = [''gain'', ''mix'', ''bypass'']" using e f w r1 by simp
  show "gainRelay ed = Some \<lparr>relayIdentifier = ''gain'', kind = SliderRelay\<rparr>" using e f k g1 by simp
  show "mixRelay ed = Some \<lparr>relayIdentifier = ''mix'', kind = SliderRelay\<rparr>" using e f k m1 by simp
  show "bypassRelay ed = Some \<lparr>relayIdentifier = ''bypass'', kind = ToggleButtonRelay\<rparr>"
    using e f k b1 by simp
  show "constructionLog ed =
          [RelayCreated ''gain'', RelayCreated ''mix'', RelayCreated ''bypass'',
           RelayRegistered ''gain'', RelayRegistered ''mix'', RelayRegistered ''bypass'',
           BrowserConstructed [''gain'', ''mix'', ''bypass''],
           Navigated (if DEV_MODE b then DEV_SERVER_URL else getResourceProviderRoot b),
           AttachmentCreated (ParamIDs_gain b) ''gain'',
           AttachmentCreated (ParamIDs_mix b) ''mix'',
           AttachmentCreated (ParamIDs_bypass b) ''bypass'',
           TimerStarted 30]"
    using e f k l1 by (simp add: newEditor_def)
  have "webView ed1 \<noteq> None" using n1 by (auto simp: navigationTarget_def split: option.splits)
  then show "webView ed \<noteq> None" using e f k by simp
  show "providerInstalled ed" using e f w i1 by simp
qed

lemma handleCall_keeps:
  "navigationTarget (handleCall lib ed c) = navigationTarget ed
   \<and> browserRelays (handleCall lib ed c) = browserRelays ed
   \<and> providerInstalled (handleCall lib ed c) = providerInstalled ed
   \<and> gainRelay (handleCall lib ed c) = gainRelay ed
   \<and> mixRelay (handleCall lib ed c) = mixRelay ed
   \<and> bypassRelay (handleCall lib ed c) = bypassRelay ed
   \<and> resourcesDir (handleCall lib ed c) = resourcesDir ed"
  by (cases c)
     (simp_all add: handleCall_def timerCallback_def sendVisualizerData_def paint_def resized_def
        resourceRequest_def view_defs browser_defs split: option.splits)

lemma runCalls_keeps:
  "navigationTarget (runCalls lib ed cs) = navigationTarget ed
   \<and> browserRelays (runCalls lib ed cs) = browserRelays ed
   \<and> providerInstalled (runCalls lib ed cs) = providerInstalled ed
   \<and> gainRelay (runCalls lib ed cs) = gainRelay ed
   \<and> mixRelay (runCalls lib ed cs) = mixRelay ed
   \<and> bypassRelay (runCalls lib ed cs) = bypassRelay ed
   \<and> resourcesDir (runCalls lib ed cs) = resourcesDir ed"
proof (induction cs arbitrary: ed)
  case Nil
  show ?case by (simp add: runCalls_def)
next
  case (Cons c cs)
  have "runCalls lib ed (c # cs) = runCalls lib (handleCall lib ed c) cs"
    by (simp add: runCalls_def)
  then show ?case using Cons.IH [of "handleCall lib ed c"] handleCall_keeps [of lib ed c] by simp
qed


lemma PluginEditor_succeeds:
  assumes "getParameter p (ParamIDs_gain b) \<noteq> None"
    and "getParameter p (ParamIDs_mix b) \<noteq> None"
    and "getParameter p (ParamIDs_bypass b) \<noteq> None"
  shows "\<exists>ed. PluginEditor lib b p = Inr ed"
proof -
  obtain ed1 where s1: "setupWebView lib b (newEditor lib p) = Inr ed1"
    and p1: "processorRef ed1 = processorRef (newEditor lib p)"
    and g1: "gainRelay ed1 = Some \<lparr>relayIdentifier = ''gain'', kind = SliderRelay\<rparr>"
    and m1: "mixRelay ed1 = Some \<lparr>relayIdentifier = ''mix'', kind = SliderRelay\<rparr>"
    and b1: "bypassRelay ed1 = Some \<lparr>relayIdentifier = ''bypass'', kind = ToggleButtonRelay\<rparr>"
    using setupWebView_result [of lib b "newEditor lib p"] by blast
  have "processorRef ed1 = p" using p1 by (simp add: newEditor_def)
  then have "\<exists>ed2. setupRelaysAndAttachments b ed1 = Inr ed2"
    using assms g1 m1 b1
    by (auto simp: setupRelaysAndAttachments_def makeAttachment_def)
  then show ?thesis using s1 by (auto simp: PluginEditor_def)
qed

lemma demoEditor_constructed:
  "PluginEditor demoApi (demoBuild dev) demoProcessor = Inr (demoEditor dev)"
proof -
  have "\<exists>ed. PluginEditor demoApi (demoBuild dev) demoProcessor = Inr ed"
    by (rule PluginEditor_succeeds) (simp_all add: demoBuild_def demoProcessor_def)
  then show ?thesis by (auto simp: demoEditor_def)
qed

subsection \<open>Requests for files that do not exist\<close>

text \<open>
  C5 says that a request whose normalised path names no existing regular file under the
  asset root is answered NotFound. The lambda asks whether a regular file exists at the
  location resolved from \<open>resourcesDir\<close>, not whether that location is under it: in the
  constructed editor \<open>../secret\<close> names no file under the asset root, the location it
  resolves to lies outside, and the request is answered with that file.
\<close>

theorem escaping_request_is_served:
  "resourcesDir (demoEditor False) = demoRoot
   \<and> \<not> prefix demoRoot
        (getChildFile demoApi (resourcesDir (demoEditor False)) (normalisePath ''../secret''))
   \<and> fst (resourceRequest demoApi (demoEditor False) ''../secret'')
       = Some \<lparr>data = [107, 101, 121], mimeType = ''application/octet-stream''\<rparr>"
  by code_simp

text \<open>
  C5, as the code has it: a request is answered NotFound exactly when no regular file
  exists at the location \<open>getChildFile\<close> resolves the normalised path to from
  \<open>resourcesDir\<close>, wherever that location lies; the answer is a value and never an error,
  and the editor is the same after every request as before it.
\<close>

theorem unknown_path_is_not_found:
  "(fst (resourceRequest lib ed url) = None)
     = (\<not> existsAsFile lib (getChildFile lib (resourcesDir ed) (normalisePath url)))
   \<and> (\<not> existsAsFile lib (getChildFile lib (resourcesDir ed) (normalisePath url))
        \<longrightarrow> resourceRequest lib ed url = (None, ed))
   \<and> snd (resourceRequest lib ed url) = ed
   \<and> handleCall lib ed (ResourceRequest url) = ed"
  by (simp add: resourceRequest_def handleCall_def resourceProvider_cases)

theorem unknown_path_is_not_found_witness:
  "resourceRequest demoApi (demoEditor False) ''missing.png'' = (None, demoEditor False)
   \<and> handleCall demoApi (demoEditor False) (ResourceRequest ''missing.png'') = demoEditor False
   \<and> fst (resourceRequest demoApi (demoEditor False) ''../secret'') \<noteq> None
   \<and> snd (resourceRequest demoApi (demoEditor False) ''../secret'') = demoEditor False"
proof -
  have a: "\<not> existsAsFile demoApi
           (getChildFile demoApi (resourcesDir (demoEditor False)) (normalisePath ''missing.png''))"
    by code_simp
  have b: "existsAsFile demoApi
           (getChildFile demoApi (resourcesDir (demoEditor False)) (normalisePath ''../secret''))"
    by code_simp
  show ?thesis
    using a b
      unknown_path_is_not_found [of demoApi "demoEditor False" "''missing.png''"]
      unknown_path_is_not_found [of demoApi "demoEditor False" "''../secret''"]
    by blast
qed

subsection \<open>The event channel\<close>

text \<open>
  C9: each call of \<open>sendVisualizerData\<close>, and so each timer tick, on an editor whose
  WebView exists delivers exactly one \<open>visualizerData\<close> message when the browser is
  visible, and none when it is not: then the editor is unchanged, nothing is queued and
  no error is raised.
\<close>

theorem visualizer_event_only_when_visible:
  assumes "webView ed = Some wb"
  shows "deliveredToUI (sendVisualizerData ed)
           = deliveredToUI ed @ (if browserVisible wb then [(''visualizerData'', [])] else [])
         \<and> (\<not> browserVisible wb \<longrightarrow> sendVisualizerData ed = ed)
         \<and> timerCallback ed = sendVisualizerData ed"
  using assms
  by (simp add: sendVisualizerData_def timerCallback_def deliveredToUI_def
      emitEventIfBrowserIsVisible_def)

theorem visualizer_event_only_when_visible_witness:
  "deliveredToUI (timerCallback (demoEditor False)) = [(''visualizerData'', [])]
   \<and> timerCallback (handleCall demoApi (demoEditor False) (VisibilityChanged False))
       = handleCall demoApi (demoEditor False) (VisibilityChanged False)"
proof -
  let ?shown = "demoEditor False"
  let ?hidden = "handleCall demoApi (demoEditor False) (VisibilityChanged False)"
  have s: "map_option browserVisible (webView ?shown) = Some True" by code_simp
  have h: "map_option browserVisible (webView ?hidden) = Some False" by code_simp
  have d: "deliveredToUI ?shown = []" by code_simp
  from s obtain wb where wb: "webView ?shown = Some wb" "browserVisible wb" by auto
  from h obtain wh where wh: "webView ?hidden = Some wh" "\<not> browserVisible wh" by auto
  from visualizer_event_only_when_visible [OF wb(1)] wb(2) d
  have a: "deliveredToUI (timerCallback ?shown) = [(''visualizerData'', [])]" by simp
  from visualizer_event_only_when_visible [OF wh(1)] wh(2)
  have b: "timerCallback ?hidden = ?hidden" by simp
  show ?thesis using a b by simp
qed

subsection \<open>The operating mode\<close>

text \<open>The options are built with the resource provider whatever the mode is: line 74
  stands outside the \<open>#if\<close> of lines 130 to 136.\<close>

lemma provider_installed_in_both_modes:
  "PluginEditor lib b p = Inr ed \<Longrightarrow> providerInstalled (runCalls lib ed cs)"
  using runCalls_keeps [of lib ed cs] PluginEditor_result(8) [of lib b p ed] by simp



subsection \<open>Relays before the browser\<close>

text \<open>
  C7: \<open>setupWebView\<close> never fails, whatever the editor it starts from, and its log reads:
  the three relays are created, then registered in the options, and only then is the
  browser constructed, with exactly these three identifiers. In a constructed editor no
  call changes the relays or the identifiers the browser was constructed with.
\<close>

theorem relays_registered_before_browser:
  "(\<exists>ed1. setupWebView lib b ed0 = Inr ed1
      \<and> constructionLog ed1 = constructionLog ed0 @
           [RelayCreated ''gain'', RelayCreated ''mix'', RelayCreated ''bypass'',
            RelayRegistered ''gain'', RelayRegistered ''mix'', RelayRegistered ''bypass'',
            BrowserConstructed [''gain'', ''mix'', ''bypass''],
            Navigated (if DEV_MODE b then DEV_SERVER_URL else getResourceProviderRoot b)])
   \<and> (PluginEditor lib b p = Inr ed \<longrightarrow>
        constructionLog ed =
           [RelayCreated ''gain'', RelayCreated ''mix'', RelayCreated ''bypass'',
            RelayRegistered ''gain'', RelayRegistered ''mix'', RelayRegistered ''bypass'',
            BrowserConstructed [''gain'', ''mix'', ''bypass''],
            Navigated (if DEV_MODE b then DEV_SERVER_URL else getResourceProviderRoot b),
            AttachmentCreated (ParamIDs_gain b) ''gain'',
            AttachmentCreated (ParamIDs_mix b) ''mix'',
            AttachmentCreated (ParamIDs_bypass b) ''bypass'',
            TimerStarted 30]
        \<and> browserRelays (runCalls lib ed cs) = [''gain'', ''mix'', ''bypass'']
        \<and> gainRelay (runCalls lib ed cs) = Some \<lparr>relayIdentifier = ''gain'', kind = SliderRelay\<rparr>
        \<and> mixRelay (runCalls lib ed cs) = Some \<lparr>relayIdentifier = ''mix'', kind = SliderRelay\<rparr>
        \<and> bypassRelay (runCalls lib ed cs)
            = Some \<lparr>relayIdentifier = ''bypass'', kind = ToggleButtonRelay\<rparr>)"
proof (intro conjI impI)
  show "\<exists>ed1. setupWebView lib b ed0 = Inr ed1
      \<and> constructionLog ed1 = constructionLog ed0 @
           [RelayCreated ''gain'', RelayCreated ''mix'', RelayCreated ''bypass'',
            RelayRegistered ''gain'', RelayRegistered ''mix'', RelayRegistered ''bypass'',
            BrowserConstructed [''gain'', ''mix'', ''bypass''],
            Navigated (if DEV_MODE b then DEV_SERVER_URL else getResourceProviderRoot b)]"
    using setupWebView_result [of lib b ed0] by blast
next
  assume c: "PluginEditor lib b p = Inr ed"
  note k = runCalls_keeps [of lib ed cs]
  show "constructionLog ed =
           [RelayCreated ''gain'', RelayCreated ''mix'', RelayCreated ''bypass'',
            RelayRegistered ''gain'', RelayRegistered ''mix'', RelayRegistered ''bypass'',
            BrowserConstructed [''gain'', ''mix'', ''bypass''],
            Navigated (if DEV_MODE b then DEV_SERVER_URL else getResourceProviderRoot b),
            AttachmentCreated (ParamIDs_gain b) ''gain'',
            AttachmentCreated (ParamIDs_mix b) ''mix'',
            AttachmentCreated (ParamIDs_bypass b) ''bypass'',
            TimerStarted 30]"
    by (rule PluginEditor_result(6) [OF c])
  show "browserRelays (runCalls lib ed cs) = [''gain'', ''mix'', ''bypass'']"
    using k PluginEditor_result(2) [OF c] by simp
  show "gainRelay (runCalls lib ed cs) = Some \<lparr>relayIdentifier = ''gain'', kind = SliderRelay\<rparr>"
    using k PluginEditor_result(3) [OF c] by simp
  show "mixRelay (runCalls lib ed cs) = Some \<lparr>relayIdentifier = ''mix'', kind = SliderRelay\<rparr>"
    using k PluginEditor_result(4) [OF c] by simp
  show "bypassRelay (runCalls lib ed cs)
          = Some \<lparr>relayIdentifier = ''bypass'', kind = ToggleButtonRelay\<rparr>"
    using k PluginEditor_result(5) [OF c] by simp
qed

theorem relays_registered_before_browser_witness:
  "take 7 (constructionLog (demoEditor False))
     = [RelayCreated ''gain'', RelayCreated ''mix'', RelayCreated ''bypass'',
        RelayRegistered ''gain'', RelayRegistered ''mix'', RelayRegistered ''bypass'',
        BrowserConstructed [''gain'', ''mix'', ''bypass'']]
   \<and> browserRelays (runCalls demoApi (demoEditor False)
        [TimerCallback, Resized, ResourceRequest ''/'', VisibilityChanged False, Paint])
       = [''gain'', ''mix'', ''bypass'']"
proof -
  note t = relays_registered_before_browser
             [where lib = demoApi and b = "demoBuild False" and p = demoProcessor
                and ed = "demoEditor False" and ed0 = "newEditor demoApi demoProcessor"
                and cs = "[TimerCallback, Resized, ResourceRequest ''/'', VisibilityChanged False, Paint]"]
  have a: "take 7 (constructionLog (demoEditor False))
     = [RelayCreated ''gain'', RelayCreated ''mix'', RelayCreated ''bypass'',
        RelayRegistered ''gain'', RelayRegistered ''mix'', RelayRegistered ''bypass'',
        BrowserConstructed [''gain'', ''mix'', ''bypass'']]"
    using t demoEditor_constructed [of False] by simp
  have b: "browserRelays (runCalls demoApi (demoEditor False)
        [TimerCallback, Resized, ResourceRequest ''/'', VisibilityChanged False, Paint])
       = [''gain'', ''mix'', ''bypass'']"
    using t demoEditor_constructed [of False] by blast
  show ?thesis using a b by blast
qed

subsection \<open>Gesture framing\<close>

text \<open>
  The source creates the three attachments (lines 154 to 161) and leaves every drag
  start, value change and drag end to \<open>juce::WebSliderParameterAttachment\<close> and
  \<open>juce::WebToggleButtonParameterAttachment\<close>. How many begin and end gesture signals a
  sequence of UI events produces is decided there, so nothing is stated about it here.
\<close>

end
